theory Spec2Isabelle
  imports Main
begin

section \<open>ExchangePage: pricing, slippage bounds, swap classification and the swap-state reducer\<close>

text \<open>
  A shallow embedding of the pure functions and of the reducer of
  \<^verbatim>\<open>src/components/ExchangePage/index.jsx\<close>.

  Amounts are ethers \<^verbatim>\<open>BigNumber\<close> values: arbitrary-precision signed integers, here
  \<^typ>\<open>int\<close>. \<^verbatim>\<open>add\<close>, \<^verbatim>\<open>sub\<close> and \<^verbatim>\<open>mul\<close> are exact and never fail;
  \<^verbatim>\<open>div\<close> throws on a zero divisor and otherwise truncates towards zero. A thrown
  exception is the \<open>Inl\<close> branch of a sum.
\<close>

subsection \<open>Errors and BigNumber division\<close>

datatype error =
    NumericFault    \<comment> \<open>\<^verbatim>\<open>BigNumber.div\<close> by zero\<close>
  | TypeError       \<comment> \<open>property read on \<^verbatim>\<open>undefined\<close>\<close>
  | ThrownError     \<comment> \<open>\<^verbatim>\<open>throw Error()\<close>\<close>

definition bn_tdiv :: "int \<Rightarrow> int \<Rightarrow> int" where
  "bn_tdiv a b = sgn a * sgn b * (\<bar>a\<bar> div \<bar>b\<bar>)"

definition bn_div :: "int \<Rightarrow> int \<Rightarrow> error + int" where
  "bn_div a b = (if b = 0 then Inl NumericFault else Inr (bn_tdiv a b))"

definition MaxUint256 :: int where
  "MaxUint256 = 2 ^ 256 - 1"

subsection \<open>Constant-product pricing\<close>

definition calculateEtherSethOutputFromInput :: "int \<Rightarrow> int \<Rightarrow> int \<Rightarrow> error + int" where
  "calculateEtherSethOutputFromInput inputAmount inputReserve outputReserve =
     (let inputAmountWithFee = inputAmount * 997;
          numerator = inputAmountWithFee * outputReserve;
          denominator = inputReserve * 1000 + inputAmountWithFee
      in bn_div numerator denominator)"

definition calculateEtherSethInputFromOutput :: "int \<Rightarrow> int \<Rightarrow> int \<Rightarrow> error + int" where
  "calculateEtherSethInputFromOutput outputAmount inputReserve outputReserve =
     (let numerator = inputReserve * outputAmount * 1000;
          denominator = (outputReserve - outputAmount) * 997
      in case bn_div numerator denominator of
           Inl e \<Rightarrow> Inl e
         | Inr q \<Rightarrow> Inr (q + 1))"

subsection \<open>Slippage bounds\<close>

record slippage_bounds =
  minimum :: int
  maximum :: int

text \<open>
  The value is a BigNumber or absent (the empty string or \<^verbatim>\<open>undefined\<close>, both falsy);
  a BigNumber object is truthy whatever its magnitude. The empty object \<^verbatim>\<open>{}\<close> is
  \<open>None\<close>.
\<close>

definition calculateSlippageBounds ::
  "int option \<Rightarrow> bool \<Rightarrow> int \<Rightarrow> int \<Rightarrow> error + slippage_bounds option" where
  "calculateSlippageBounds val token tokenAllowedSlippage allowedSlippage =
     (case val of
        None \<Rightarrow> Inr None
      | Some v \<Rightarrow>
          (case bn_div (v * (if token then tokenAllowedSlippage else allowedSlippage)) 10000 of
             Inl e \<Rightarrow> Inl e
           | Inr offset \<Rightarrow>
               (let minimum = v - offset;
                    maximum = v + offset
                in Inr (Some \<lparr>minimum = (if minimum < 0 then 0 else minimum),
                               maximum = (if maximum > MaxUint256 then MaxUint256
                                          else maximum)\<rparr>))))"

subsection \<open>Swap type\<close>

datatype swap_type =
  ETH_TO_SETH | SETH_TO_ETH | ETH_TO_OTHERSTOKEN | OTHERSTOKEN_TO_ETH | STOKEN_TO_STOKEN

text \<open>
  A symbol is a string or \<^verbatim>\<open>undefined\<close>; \<^verbatim>\<open>undefined\<close> and the empty string are
  falsy.
\<close>

definition truthy :: "string option \<Rightarrow> bool" where
  "truthy x = (case x of None \<Rightarrow> False | Some t \<Rightarrow> t \<noteq> [])"

definition getSwapType :: "string option \<Rightarrow> string option \<Rightarrow> swap_type option" where
  "getSwapType inputCurrency outputCurrency =
     (if \<not> truthy inputCurrency \<or> \<not> truthy outputCurrency then None
      else if inputCurrency = Some ''ETH'' then
        (if outputCurrency = Some ''sETH'' then Some ETH_TO_SETH
         else Some ETH_TO_OTHERSTOKEN)
      else if inputCurrency = Some ''sETH'' then
        (if outputCurrency = Some ''ETH'' then Some SETH_TO_ETH
         else Some STOKEN_TO_STOKEN)
      else
        (if outputCurrency = Some ''ETH'' then Some OTHERSTOKEN_TO_ETH
         else Some STOKEN_TO_STOKEN))"

subsection \<open>Swap state and its reducer\<close>

datatype field = INPUT | OUTPUT

text \<open>
  \<open>dependentValue\<close> and the two slippage values hold a BigNumber or nothing (the empty
  string or \<^verbatim>\<open>undefined\<close>): \<open>None\<close>. A currency is a string, empty when unset.
\<close>

record swap_state =
  independentValue :: string
  dependentValue :: "int option"
  independentField :: field
  inputCurrency :: string
  outputCurrency :: string
  slippageInputValue :: "int option"
  slippageOutputValue :: "int option"

text \<open>The argument of the initialiser, as \<^verbatim>\<open>useReducer\<close> passes it.\<close>

record init_arg =
  initialCurrency :: "string option"
  inputCurrencyURL :: "string option"
  outputCurrencyURL :: "string option"
  exactFieldURL :: "string option"
  exactAmountURL :: "string option"

definition str_of :: "string option \<Rightarrow> string" where
  "str_of x = (case x of None \<Rightarrow> [] | Some t \<Rightarrow> t)"

text \<open>
  Called with no argument, the parameter is \<^verbatim>\<open>undefined\<close> (\<open>None\<close>) and the first
  property read, \<^verbatim>\<open>state.exactFieldURL\<close>, throws a TypeError.
\<close>

definition getInitialSwapState :: "init_arg option \<Rightarrow> error + swap_state" where
  "getInitialSwapState arg =
     (case arg of
        None \<Rightarrow> Inl TypeError
      | Some state \<Rightarrow>
          Inr \<lparr>independentValue =
                 (if truthy (exactFieldURL state) \<and> truthy (exactAmountURL state)
                  then str_of (exactAmountURL state) else []),
               dependentValue = None,
               independentField =
                 (if exactFieldURL state = Some ''output'' then OUTPUT else INPUT),
               inputCurrency =
                 (if truthy (inputCurrencyURL state) then str_of (inputCurrencyURL state)
                  else ''ETH''),
               outputCurrency =
                 (if truthy (outputCurrencyURL state) then str_of (outputCurrencyURL state)
                  else if truthy (initialCurrency state) then str_of (initialCurrency state)
                  else []),
               slippageInputValue = None,
               slippageOutputValue = None\<rparr>)"

text \<open>
  The payload of \<open>UPDATE_SLIPPAGE\<close> is the pair \<^verbatim>\<open>{slippageInput, slippageOutput}\<close> or
  the empty string, whose two properties read as \<^verbatim>\<open>undefined\<close>. \<open>OTHER t\<close> is an
  action whose type \<open>t\<close> is none of the five the \<^verbatim>\<open>switch\<close> names.
\<close>

datatype action =
    FLIP_INDEPENDENT
  | SELECT_CURRENCY field string
  | UPDATE_INDEPENDENT field string
  | UPDATE_DEPENDENT "int option"
  | UPDATE_SLIPPAGE "(int \<times> int) option"
  | OTHER string

fun swapStateReducer :: "swap_state \<Rightarrow> action \<Rightarrow> error + swap_state" where
  "swapStateReducer state FLIP_INDEPENDENT =
     Inr (state\<lparr>dependentValue := None,
                independentField := (if independentField state = INPUT then OUTPUT else INPUT),
                inputCurrency := outputCurrency state,
                outputCurrency := inputCurrency state\<rparr>)"
| "swapStateReducer state (SELECT_CURRENCY fld currency) =
     (let newInputCurrency = (if fld = INPUT then currency else inputCurrency state);
          newOutputCurrency = (if fld = OUTPUT then currency else outputCurrency state)
      in if newInputCurrency = newOutputCurrency
         then Inr (state\<lparr>inputCurrency := (if fld = INPUT then currency else []),
                         outputCurrency := (if fld = OUTPUT then currency else [])\<rparr>)
         else Inr (state\<lparr>inputCurrency := newInputCurrency,
                         outputCurrency := newOutputCurrency\<rparr>))"
| "swapStateReducer state (UPDATE_INDEPENDENT fld v) =
     Inr (state\<lparr>independentValue := v,
                dependentValue := (if v = independentValue state then dependentValue state
                                   else None),
                independentField := fld\<rparr>)"
| "swapStateReducer state (UPDATE_DEPENDENT payload) =
     Inr (state\<lparr>dependentValue := payload\<rparr>)"
| "swapStateReducer state (UPDATE_SLIPPAGE payload) =
     Inr (state\<lparr>slippageInputValue := map_option fst payload,
                slippageOutputValue := map_option snd payload\<rparr>)"
| "swapStateReducer state (OTHER t) = getInitialSwapState None"

text \<open>Actions are reduced one after the other, in the order they are dispatched.\<close>

fun dispatchAll :: "swap_state \<Rightarrow> action list \<Rightarrow> error + swap_state" where
  "dispatchAll state [] = Inr state"
| "dispatchAll state (a # as) =
     (case swapStateReducer state a of
        Inl e \<Rightarrow> Inl e
      | Inr state' \<Rightarrow> dispatchAll state' as)"

subsection \<open>The effect that calculates the dependent value\<close>

text \<open>
  A call of the converter contract (\<^verbatim>\<open>inputPrice(src, amount, dst)\<close> or
  \<^verbatim>\<open>outputPrice(src, dst, amount)\<close>) returns a promise; the request is recorded with
  the \<^verbatim>\<open>then\<close> callback attached to it. The callbacks close over the reserves of
  the run that issued them.
\<close>

datatype price_method = inputPrice | outputPrice

datatype continuation =
    SetDependent                      \<comment> \<open>the callback of \<^verbatim>\<open>method(...args)\<close>\<close>
  | SlippageFromInput int int         \<comment> \<open>OTHERSTOKEN_TO_ETH, exact input: reserveToken, reserveETH\<close>
  | SlippageFromOutput int int        \<comment> \<open>ETH_TO_OTHERSTOKEN, exact output: reserveETH, reserveToken\<close>

record quote_request =
  req_method :: price_method
  req_src :: string
  req_dst :: string
  req_amount :: int
  req_then :: continuation

record effect_result =
  dispatched :: "action list"
  issued :: "quote_request list"

text \<open>
  \<^verbatim>\<open>ethers.utils.formatBytes32String\<close>: reading the length of \<^verbatim>\<open>undefined\<close> throws a
  TypeError, a text of more than 31 bytes throws an Error, and any other text is encoded.
  The encoding is carried as the text itself.
\<close>

definition formatBytes32String :: "string option \<Rightarrow> error + string" where
  "formatBytes32String text =
     (case text of
        None \<Rightarrow> Inl TypeError
      | Some t \<Rightarrow> (if length t > 31 then Inl ThrownError else Inr t))"

text \<open>
  The body of the \<^verbatim>\<open>try\<close> block, for a present amount and present reserves. A
  symbol is a string or \<^verbatim>\<open>undefined\<close>. Every exception of the block is thrown by an
  encoding or by a pricing function before the first dispatch, so a failing run
  dispatches nothing and asks no quote.
\<close>

definition calculateDependentValue ::
  "int \<Rightarrow> int \<Rightarrow> int \<Rightarrow> swap_type option \<Rightarrow> field
     \<Rightarrow> string option \<Rightarrow> string option \<Rightarrow> error + effect_result" where
  "calculateDependentValue amount reserveETH reserveToken swapType fld inputSymbol outputSymbol =
     (case formatBytes32String (Some ''sETH'') of
        Inl e \<Rightarrow> Inl e
      | Inr sEthBytes32 \<Rightarrow>
     (case formatBytes32String inputSymbol of
        Inl e \<Rightarrow> Inl e
      | Inr srcBytes32 \<Rightarrow>
     (case formatBytes32String outputSymbol of
        Inl e \<Rightarrow> Inl e
      | Inr dstBytes32 \<Rightarrow>
     (if fld = INPUT then
        (case swapType of
           Some ETH_TO_SETH \<Rightarrow>
             (case calculateEtherSethOutputFromInput amount reserveETH reserveToken of
                Inl e \<Rightarrow> Inl e
              | Inr slippageOutput \<Rightarrow>
                  Inr \<lparr>dispatched = [UPDATE_SLIPPAGE (Some (amount, slippageOutput)),
                                     UPDATE_DEPENDENT (Some slippageOutput)],
                       issued = []\<rparr>)
         | Some ETH_TO_OTHERSTOKEN \<Rightarrow>
             (case calculateEtherSethOutputFromInput amount reserveETH reserveToken of
                Inl e \<Rightarrow> Inl e
              | Inr slippageOutput \<Rightarrow>
                  Inr \<lparr>dispatched = [UPDATE_SLIPPAGE (Some (amount, slippageOutput))],
                       issued = [\<lparr>req_method = inputPrice, req_src = sEthBytes32,
                                  req_dst = dstBytes32, req_amount = slippageOutput,
                                  req_then = SetDependent\<rparr>]\<rparr>)
         | Some SETH_TO_ETH \<Rightarrow>
             (case calculateEtherSethOutputFromInput amount reserveToken reserveETH of
                Inl e \<Rightarrow> Inl e
              | Inr slippageOutput \<Rightarrow>
                  Inr \<lparr>dispatched = [UPDATE_SLIPPAGE (Some (amount, slippageOutput)),
                                     UPDATE_DEPENDENT (Some slippageOutput)],
                       issued = []\<rparr>)
         | Some OTHERSTOKEN_TO_ETH \<Rightarrow>
             Inr \<lparr>dispatched = [],
                  issued = [\<lparr>req_method = inputPrice, req_src = srcBytes32,
                             req_dst = sEthBytes32, req_amount = amount,
                             req_then = SlippageFromInput reserveToken reserveETH\<rparr>,
                            \<lparr>req_method = inputPrice, req_src = srcBytes32,
                             req_dst = dstBytes32, req_amount = amount,
                             req_then = SetDependent\<rparr>]\<rparr>
         | Some STOKEN_TO_STOKEN \<Rightarrow>
             Inr \<lparr>dispatched = [UPDATE_SLIPPAGE None],
                  issued = [\<lparr>req_method = inputPrice, req_src = srcBytes32,
                             req_dst = dstBytes32, req_amount = amount,
                             req_then = SetDependent\<rparr>]\<rparr>
         | None \<Rightarrow> Inr \<lparr>dispatched = [], issued = []\<rparr>)
      else
        (case swapType of
           Some ETH_TO_SETH \<Rightarrow>
             (case calculateEtherSethInputFromOutput amount reserveETH reserveToken of
                Inl e \<Rightarrow> Inl e
              | Inr slippageInput \<Rightarrow>
                  Inr \<lparr>dispatched = [UPDATE_SLIPPAGE (Some (slippageInput, amount)),
                                     UPDATE_DEPENDENT (Some slippageInput)],
                       issued = []\<rparr>)
         | Some SETH_TO_ETH \<Rightarrow>
             (case calculateEtherSethInputFromOutput amount reserveToken reserveETH of
                Inl e \<Rightarrow> Inl e
              | Inr slippageInput \<Rightarrow>
                  Inr \<lparr>dispatched = [UPDATE_SLIPPAGE (Some (slippageInput, amount)),
                                     UPDATE_DEPENDENT (Some slippageInput)],
                       issued = []\<rparr>)
         | Some OTHERSTOKEN_TO_ETH \<Rightarrow>
             (case calculateEtherSethInputFromOutput amount reserveToken reserveETH of
                Inl e \<Rightarrow> Inl e
              | Inr slippageInput \<Rightarrow>
                  Inr \<lparr>dispatched = [UPDATE_SLIPPAGE (Some (slippageInput, amount))],
                       issued = [\<lparr>req_method = outputPrice, req_src = srcBytes32,
                                  req_dst = sEthBytes32, req_amount = slippageInput,
                                  req_then = SetDependent\<rparr>]\<rparr>)
         | Some ETH_TO_OTHERSTOKEN \<Rightarrow>
             Inr \<lparr>dispatched = [],
                  issued = [\<lparr>req_method = outputPrice, req_src = sEthBytes32,
                             req_dst = dstBytes32, req_amount = amount,
                             req_then = SlippageFromOutput reserveETH reserveToken\<rparr>,
                            \<lparr>req_method = outputPrice, req_src = srcBytes32,
                             req_dst = dstBytes32, req_amount = amount,
                             req_then = SetDependent\<rparr>]\<rparr>
         | Some STOKEN_TO_STOKEN \<Rightarrow>
             Inr \<lparr>dispatched = [UPDATE_SLIPPAGE None],
                  issued = [\<lparr>req_method = outputPrice, req_src = srcBytes32,
                             req_dst = dstBytes32, req_amount = amount,
                             req_then = SetDependent\<rparr>]\<rparr>
         | None \<Rightarrow> Inr \<lparr>dispatched = [], issued = []\<rparr>)))))"

text \<open>
  The \<^verbatim>\<open>then\<close> callbacks: each throws on a non-positive response and otherwise
  dispatches one action. The callback reads nothing of the current state.
\<close>

definition onResponse :: "continuation \<Rightarrow> int \<Rightarrow> error + action" where
  "onResponse k response =
     (case k of
        SetDependent \<Rightarrow>
          (if response \<le> 0 then Inl ThrownError
           else Inr (UPDATE_DEPENDENT (Some response)))
      | SlippageFromInput reserveToken reserveETH \<Rightarrow>
          (if response \<le> 0 then Inl ThrownError
           else (case calculateEtherSethOutputFromInput response reserveToken reserveETH of
                   Inl e \<Rightarrow> Inl e
                 | Inr slippageOutput2 \<Rightarrow>
                     Inr (UPDATE_SLIPPAGE (Some (response, slippageOutput2)))))
      | SlippageFromOutput reserveETH reserveToken \<Rightarrow>
          (if response \<le> 0 then Inl ThrownError
           else (case calculateEtherSethInputFromOutput response reserveETH reserveToken of
                   Inl e \<Rightarrow> Inl e
                 | Inr slippageInput2 \<Rightarrow>
                     Inr (UPDATE_SLIPPAGE (Some (slippageInput2, response))))))"

subsection \<open>The session: state, effects and outstanding requests\<close>

text \<open>
  What the hooks hand to the component: the two reserves (a BigNumber or nothing), the
  symbols of the two selected tokens (a string or \<^verbatim>\<open>undefined\<close>), and whether the
  decimals of the independent field are known.
\<close>

record environment =
  reserveETH :: "int option"
  reserveToken :: "int option"
  inputSymbol :: "string option"
  outputSymbol :: "string option"
  decimalsKnown :: bool

text \<open>
  An outstanding request remembers the amount (\<open>independentValueParsed\<close>) of the run
  of the effect that issued it.
\<close>

record pending_request =
  trigger :: int
  request :: quote_request

record session =
  swapState :: swap_state
  independentValueParsed :: "int option"
  independentError :: "string option"
  pending :: "pending_request list"

text \<open>
  The events of a session. \<open>ParseEffect p\<close> runs the effect that validates the
  independent value, \<open>p\<close> being what \<^verbatim>\<open>parseUnits\<close> returns (\<open>None\<close> when it throws).
  \<open>Resolve i r\<close> fulfils the promise of the \<open>i\<close>-th outstanding request with \<open>r\<close>.
  React runs the effects of a render in the order the scenario lists them.
\<close>

datatype event =
    Dispatch action
  | ParseEffectCleanup
  | ParseEffect "int option"
  | DependentEffectCleanup
  | DependentEffect
  | Resolve nat int

definition parseEffect :: "environment \<Rightarrow> int option \<Rightarrow> session \<Rightarrow> session" where
  "parseEffect env parsed s =
     (if independentValue (swapState s) \<noteq> [] \<and> decimalsKnown env then
        (case parsed of
           None \<Rightarrow> s\<lparr>independentError := Some ''inputNotValid''\<rparr>
         | Some parsedValue \<Rightarrow>
             (if parsedValue \<le> 0 \<or> parsedValue \<ge> MaxUint256
              then s\<lparr>independentError := Some ''inputNotValid''\<rparr>
              else s\<lparr>independentValueParsed := Some parsedValue, independentError := None\<rparr>))
      else s)"

definition dependentEffect :: "environment \<Rightarrow> session \<Rightarrow> error + session" where
  "dependentEffect env s =
     (case independentValueParsed s of
        None \<Rightarrow> Inr s
      | Some amount \<Rightarrow>
          (case reserveETH env of
             None \<Rightarrow> Inr s
           | Some rETH \<Rightarrow>
               (case reserveToken env of
                  None \<Rightarrow> Inr s
                | Some rToken \<Rightarrow>
                    (case calculateDependentValue amount rETH rToken
                            (getSwapType (inputSymbol env) (outputSymbol env))
                            (independentField (swapState s))
                            (inputSymbol env) (outputSymbol env) of
                       Inl e \<Rightarrow> Inr (s\<lparr>independentError := Some ''insufficientLiquidity''\<rparr>)
                     | Inr r \<Rightarrow>
                         (case dispatchAll (swapState s) (dispatched r) of
                            Inl e \<Rightarrow> Inl e
                          | Inr state' \<Rightarrow>
                              Inr (s\<lparr>swapState := state',
                                     pending := pending s
                                       @ map (\<lambda>q. \<lparr>trigger = amount, request = q\<rparr>)
                                           (issued r)\<rparr>))))))"

definition resolve :: "nat \<Rightarrow> int \<Rightarrow> session \<Rightarrow> error + session" where
  "resolve i response s =
     (if i < length (pending s) then
        (let p = pending s ! i;
             s' = s\<lparr>pending := take i (pending s) @ drop (Suc i) (pending s)\<rparr>
         in case onResponse (req_then (request p)) response of
              Inl e \<Rightarrow> Inr s'
            | Inr a \<Rightarrow>
                (case swapStateReducer (swapState s') a of
                   Inl e \<Rightarrow> Inl e
                 | Inr state' \<Rightarrow> Inr (s'\<lparr>swapState := state'\<rparr>)))
      else Inr s)"

fun step :: "environment \<Rightarrow> session \<Rightarrow> event \<Rightarrow> error + session" where
  "step env s (Dispatch a) =
     (case swapStateReducer (swapState s) a of
        Inl e \<Rightarrow> Inl e
      | Inr state' \<Rightarrow> Inr (s\<lparr>swapState := state'\<rparr>))"
| "step env s ParseEffectCleanup =
     Inr (s\<lparr>independentValueParsed := None, independentError := None\<rparr>)"
| "step env s (ParseEffect parsed) = Inr (parseEffect env parsed s)"
| "step env s DependentEffectCleanup =
     (case dispatchAll (swapState s) [UPDATE_DEPENDENT None, UPDATE_SLIPPAGE None] of
        Inl e \<Rightarrow> Inl e
      | Inr state' \<Rightarrow> Inr (s\<lparr>swapState := state'\<rparr>))"
| "step env s DependentEffect = dependentEffect env s"
| "step env s (Resolve i response) = resolve i response s"

fun run :: "environment \<Rightarrow> session \<Rightarrow> event list \<Rightarrow> error + session" where
  "run env s [] = Inr s"
| "run env s (e # es) =
     (case step env s e of
        Inl err \<Rightarrow> Inl err
      | Inr s' \<Rightarrow> run env s' es)"

subsection \<open>Predicates of the statements\<close>

text \<open>
  These two are not code: they name what the statements below say about a state and
  about a list of actions.
\<close>

definition currenciesDistinct :: "swap_state \<Rightarrow> bool" where
  "currenciesDistinct s =
     (inputCurrency s \<noteq> [] \<and> outputCurrency s \<noteq> []
        \<longrightarrow> inputCurrency s \<noteq> outputCurrency s)"

fun isSelectCurrency :: "action \<Rightarrow> bool" where
  "isSelectCurrency (SELECT_CURRENCY fld currency) = True"
| "isSelectCurrency a = False"

subsection \<open>Concrete inputs\<close>

text \<open>The states, environments and scenarios at which the statements are evaluated.\<close>

definition demoState :: swap_state where
  "demoState =
     \<lparr>independentValue = ''5'', dependentValue = Some 9, independentField = INPUT,
      inputCurrency = ''sETH'', outputCurrency = ''sETH'',
      slippageInputValue = None, slippageOutputValue = None\<rparr>"

text \<open>A token-to-token pair: every quote is asked of the converter contract.\<close>

definition tokenToTokenEnv :: environment where
  "tokenToTokenEnv =
     \<lparr>reserveETH = Some 1000000000, reserveToken = Some 2000000000,
      inputSymbol = Some ''sUSD'', outputSymbol = Some ''sBTC'', decimalsKnown = True\<rparr>"

definition freshSession :: session where
  "freshSession =
     \<lparr>swapState = \<lparr>independentValue = [], dependentValue = None, independentField = INPUT,
                   inputCurrency = ''sUSD'', outputCurrency = ''sBTC'',
                   slippageInputValue = None, slippageOutputValue = None\<rparr>,
      independentValueParsed = None, independentError = None, pending = []\<rparr>"

text \<open>
  The user types \<^verbatim>\<open>5\<close>, then replaces it by \<^verbatim>\<open>7\<close>: the dispatch, then the effects
  whose dependencies changed, each preceded by its cleanup when it has one.
\<close>

definition firstEdit :: "event list" where
  "firstEdit = [Dispatch (UPDATE_INDEPENDENT INPUT ''5''), ParseEffect (Some 5),
                DependentEffectCleanup, DependentEffect]"

definition secondEdit :: "event list" where
  "secondEdit = [Dispatch (UPDATE_INDEPENDENT INPUT ''7''), ParseEffectCleanup,
                 ParseEffect (Some 7), DependentEffectCleanup, DependentEffect]"

definition sessionAfterFirstEdit :: session where
  "sessionAfterFirstEdit =
     \<lparr>swapState = \<lparr>independentValue = ''5'', dependentValue = None, independentField = INPUT,
                   inputCurrency = ''sUSD'', outputCurrency = ''sBTC'',
                   slippageInputValue = None, slippageOutputValue = None\<rparr>,
      independentValueParsed = Some 5, independentError = None,
      pending = [\<lparr>trigger = 5,
                  request = \<lparr>req_method = inputPrice, req_src = ''sUSD'',
                             req_dst = ''sBTC'', req_amount = 5,
                             req_then = SetDependent\<rparr>\<rparr>]\<rparr>"

text \<open>An ETH to sETH swap with an exact output of 20 against a token reserve of 10.\<close>

definition shallowPoolEnv :: environment where
  "shallowPoolEnv =
     \<lparr>reserveETH = Some 1000, reserveToken = Some 10,
      inputSymbol = Some ''ETH'', outputSymbol = Some ''sETH'', decimalsKnown = True\<rparr>"

definition exactOutputSession :: session where
  "exactOutputSession =
     \<lparr>swapState = \<lparr>independentValue = ''20'', dependentValue = None,
                   independentField = OUTPUT,
                   inputCurrency = ''ETH'', outputCurrency = ''sETH'',
                   slippageInputValue = None, slippageOutputValue = None\<rparr>,
      independentValueParsed = Some 20, independentError = None, pending = []\<rparr>"

section \<open>Properties\<close>

subsection \<open>Division helpers\<close>

lemma bn_div_nonneg_pos:
  assumes "0 \<le> a" and "0 < b"
  shows "bn_div a b = Inr (a div b)"
proof (cases "a = 0")
  case True
  then show ?thesis using assms by (simp add: bn_div_def bn_tdiv_def)
next
  case False
  with assms have "0 < a" by simp
  then show ?thesis using assms by (simp add: bn_div_def bn_tdiv_def)
qed

lemma le_div_of_mult_le:
  fixes k n d :: int
  assumes "0 < d" and "k * d \<le> n"
  shows "k \<le> n div d"
proof -
  have "(k * d) div d \<le> n div d"
    using assms by (intro zdiv_mono1) simp_all
  then show ?thesis using assms by simp
qed

lemma div_mult_le_self:
  fixes n d :: int
  assumes "0 < d"
  shows "(n div d) * d \<le> n"
proof -
  have "n = (n div d) * d + n mod d" by simp
  moreover have "0 \<le> n mod d" using assms by simp
  ultimately show ?thesis by linarith
qed

lemma lt_succ_div_mult:
  fixes n d :: int
  assumes "0 < d"
  shows "n < (n div d + 1) * d"
proof -
  have "n = (n div d) * d + n mod d" by simp
  moreover have "n mod d < d" using assms by simp
  moreover have "(n div d + 1) * d = (n div d) * d + d" by (simp add: algebra_simps)
  ultimately show ?thesis by linarith
qed

lemma div_lt_of_lt_mult:
  fixes k n d :: int
  assumes "0 < d" and "n < k * d"
  shows "n div d < k"
proof (rule ccontr)
  assume "\<not> n div d < k"
  then have "k \<le> n div d" by simp
  then have "k * d \<le> (n div d) * d" using assms(1) by (simp add: mult_right_mono)
  also have "\<dots> \<le> n" using assms(1) by (rule div_mult_le_self)
  finally show False using assms(2) by simp
qed

text \<open>Quotients of positive denominators compare like the cross products.\<close>

lemma div_le_div_cross:
  fixes n1 n2 d1 d2 :: int
  assumes "0 < d1" and "0 < d2" and "n1 * d2 \<le> n2 * d1"
  shows "n1 div d1 \<le> n2 div d2"
proof -
  have "(n1 div d1) * d1 \<le> n1" using assms(1) by (rule div_mult_le_self)
  then have "(n1 div d1) * d1 * d2 \<le> n1 * d2"
    using assms(2) by (simp add: mult_right_mono)
  with assms(3) have "(n1 div d1) * d1 * d2 \<le> n2 * d1" by linarith
  then have "((n1 div d1) * d2) * d1 \<le> n2 * d1" by (simp add: mult.commute mult.left_commute)
  with assms(1) have "(n1 div d1) * d2 \<le> n2" by simp
  with assms(2) show ?thesis by (rule le_div_of_mult_le)
qed

subsection \<open>Pricing engine\<close>

lemma output_from_input_value:
  assumes "0 < Rin" and "0 \<le> Rout" and "0 \<le> a"
  shows "calculateEtherSethOutputFromInput a Rin Rout
           = Inr ((a * 997 * Rout) div (Rin * 1000 + a * 997))"
proof -
  have "0 \<le> a * 997 * Rout" using assms by simp
  moreover have "0 < Rin * 1000 + a * 997" using assms by simp
  ultimately show ?thesis
    by (simp add: calculateEtherSethOutputFromInput_def Let_def bn_div_nonneg_pos)
qed

lemma input_from_output_value:
  assumes "0 \<le> Rin" and "0 \<le> y" and "y < Rout"
  shows "calculateEtherSethInputFromOutput y Rin Rout
           = Inr ((Rin * y * 1000) div ((Rout - y) * 997) + 1)"
proof -
  have "0 \<le> Rin * y * 1000" using assms by simp
  moreover have "0 < (Rout - y) * 997" using assms by simp
  ultimately show ?thesis
    by (simp add: calculateEtherSethInputFromOutput_def Let_def bn_div_nonneg_pos)
qed

lemma output_below_reserve:
  fixes a Rin Rout :: int
  assumes "0 < Rin" and "0 < Rout" and "0 \<le> a"
  shows "(a * 997 * Rout) div (Rin * 1000 + a * 997) < Rout"
proof -
  let ?d = "Rin * 1000 + a * 997"
  have d: "0 < ?d" using assms by simp
  have "a * 997 < ?d" using assms by simp
  then have "a * 997 * Rout < ?d * Rout" using assms(2) by simp
  then have "a * 997 * Rout < Rout * ?d" by (simp add: mult.commute)
  with d show ?thesis by (rule div_lt_of_lt_mult)
qed

lemma output_mono:
  fixes a b Rin Rout :: int
  assumes "0 < Rin" and "0 < Rout" and "0 \<le> a" and "a \<le> b"
  shows "(a * 997 * Rout) div (Rin * 1000 + a * 997)
           \<le> (b * 997 * Rout) div (Rin * 1000 + b * 997)"
proof (rule div_le_div_cross)
  show "0 < Rin * 1000 + a * 997" using assms by simp
  show "0 < Rin * 1000 + b * 997" using assms by simp
  have "a * (Rin * Rout) \<le> b * (Rin * Rout)"
    using assms by (intro mult_right_mono) simp_all
  then show "a * 997 * Rout * (Rin * 1000 + b * 997) \<le> b * 997 * Rout * (Rin * 1000 + a * 997)"
    by (simp add: algebra_simps)
qed

lemma round_trip_core:
  fixes y Rin Rout :: int
  assumes "0 < Rin" and "0 < y" and "y < Rout"
  defines "x \<equiv> (Rin * y * 1000) div ((Rout - y) * 997) + 1"
  shows "0 < x" and "y \<le> (x * 997 * Rout) div (Rin * 1000 + x * 997)"
proof -
  let ?D = "(Rout - y) * 997"
  let ?N = "Rin * y * 1000"
  have D: "0 < ?D" using assms by simp
  have N: "0 \<le> ?N" using assms by simp
  have "0 \<le> ?N div ?D" using D N by (simp add: pos_imp_zdiv_nonneg_iff)
  then show x: "0 < x" by (simp add: x_def)
  have "?N < x * ?D" unfolding x_def using D by (rule lt_succ_div_mult)
  then have "y * (Rin * 1000 + x * 997) \<le> x * 997 * Rout"
    by (simp add: algebra_simps)
  moreover have "0 < Rin * 1000 + x * 997" using assms(1) x by simp
  ultimately show "y \<le> (x * 997 * Rout) div (Rin * 1000 + x * 997)"
    by (intro le_div_of_mult_le)
qed

text \<open>
  Claim C1. For reserves \<open>Rin > 0\<close>, \<open>Rout > 0\<close> and a requested output
  \<open>0 < amountOut < Rout\<close>, the inverse pricing function returns an input, the forward
  pricing function returns an output for that input, and this output is at least the
  requested one.
\<close>

theorem inverse_then_forward_covers_output:
  assumes "0 < Rin" and "0 < Rout" and "0 < amountOut" and "amountOut < Rout"
  shows "\<exists>amountIn out.
           calculateEtherSethInputFromOutput amountOut Rin Rout = Inr amountIn
         \<and> calculateEtherSethOutputFromInput amountIn Rin Rout = Inr out
         \<and> amountOut \<le> out"
proof -
  let ?x = "(Rin * amountOut * 1000) div ((Rout - amountOut) * 997) + 1"
  have inv: "calculateEtherSethInputFromOutput amountOut Rin Rout = Inr ?x"
    using assms by (intro input_from_output_value) simp_all
  have x: "0 < ?x" using assms(1,3,4) by (rule round_trip_core(1))
  have fwd: "calculateEtherSethOutputFromInput ?x Rin Rout
               = Inr ((?x * 997 * Rout) div (Rin * 1000 + ?x * 997))"
    using assms(1,2) x by (intro output_from_input_value) simp_all
  have "amountOut \<le> (?x * 997 * Rout) div (Rin * 1000 + ?x * 997)"
    using assms(1,3,4) by (rule round_trip_core(2))
  with inv fwd show ?thesis by blast
qed

theorem inverse_then_forward_covers_output_witness:
  "(0::int) < 1000 \<and> (0::int) < 2000 \<and> (0::int) < 100 \<and> (100::int) < 2000
   \<and> (\<exists>amountIn out.
           calculateEtherSethInputFromOutput 100 1000 2000 = Inr amountIn
         \<and> calculateEtherSethOutputFromInput amountIn 1000 2000 = Inr out
         \<and> 100 \<le> out)"
  using inverse_then_forward_covers_output [of 1000 2000 100] by simp

text \<open>
  Claim C4. For reserves \<open>Rin > 0\<close>, \<open>Rout > 0\<close> and inputs
  \<open>0 < a \<le> b < MaxUint256\<close>, the forward pricing function returns for both inputs an
  output strictly below \<open>Rout\<close>, and the output for the larger input is not smaller.
\<close>

theorem forward_below_reserve_and_monotone:
  assumes "0 < Rin" and "0 < Rout"
    and "0 < a" and "a \<le> b" and "b < MaxUint256"
  shows "\<exists>outA outB.
           calculateEtherSethOutputFromInput a Rin Rout = Inr outA
         \<and> calculateEtherSethOutputFromInput b Rin Rout = Inr outB
         \<and> outA < Rout \<and> outB < Rout \<and> outA \<le> outB"
proof -
  have a: "0 \<le> a" and b: "0 \<le> b" using assms by simp_all
  have "calculateEtherSethOutputFromInput a Rin Rout
          = Inr ((a * 997 * Rout) div (Rin * 1000 + a * 997))"
    using assms(1,2) a by (intro output_from_input_value) simp_all
  moreover have "calculateEtherSethOutputFromInput b Rin Rout
          = Inr ((b * 997 * Rout) div (Rin * 1000 + b * 997))"
    using assms(1,2) b by (intro output_from_input_value) simp_all
  moreover have "(a * 997 * Rout) div (Rin * 1000 + a * 997) < Rout"
    using assms(1,2) a by (rule output_below_reserve)
  moreover have "(b * 997 * Rout) div (Rin * 1000 + b * 997) < Rout"
    using assms(1,2) b by (rule output_below_reserve)
  moreover have "(a * 997 * Rout) div (Rin * 1000 + a * 997)
                   \<le> (b * 997 * Rout) div (Rin * 1000 + b * 997)"
    using assms(1,2) a assms(4) by (rule output_mono)
  ultimately show ?thesis by blast
qed

theorem forward_below_reserve_and_monotone_witness:
  "(0::int) < 1000000000 \<and> (0::int) < 2000000000
   \<and> (0::int) < 1000000 \<and> (1000000::int) \<le> 2000000 \<and> 2000000 < MaxUint256
   \<and> (\<exists>outA outB.
           calculateEtherSethOutputFromInput 1000000 1000000000 2000000000 = Inr outA
         \<and> calculateEtherSethOutputFromInput 2000000 1000000000 2000000000 = Inr outB
         \<and> outA < 2000000000 \<and> outB < 2000000000 \<and> outA \<le> outB)"
proof -
  have h: "(2000000::int) < MaxUint256" by (simp add: MaxUint256_def)
  show ?thesis
    using h forward_below_reserve_and_monotone [of 1000000000 2000000000 1000000 2000000]
    by simp
qed

text \<open>
  The inverse pricing function throws exactly when the requested output equals the output
  reserve (the divisor is then zero); for every other output, larger ones included, it
  returns a number.
\<close>

lemma input_from_output_fails_only_at_reserve:
  "(\<exists>e. calculateEtherSethInputFromOutput y Rin Rout = Inl e) \<longleftrightarrow> y = Rout"
  by (simp add: calculateEtherSethInputFromOutput_def bn_div_def Let_def)

lemma exact_output_at_reserve_signals:
  "step shallowPoolEnv (exactOutputSession\<lparr>independentValueParsed := Some 10\<rparr>) DependentEffect
     = Inr (exactOutputSession\<lparr>independentValueParsed := Some 10,
                               independentError := Some ''insufficientLiquidity''\<rparr>)"
  by (simp add: shallowPoolEnv_def exactOutputSession_def dependentEffect_def
        calculateDependentValue_def formatBytes32String_def getSwapType_def truthy_def
        calculateEtherSethInputFromOutput_def bn_div_def bn_tdiv_def Let_def)

text \<open>
  Claim C3. The claim is that the inverse pricing function signals insufficient liquidity
  whenever \<open>amountOut \<ge> Rout\<close> and never returns a number for \<open>amountOut > Rout\<close>.
  The code does not: for the output 20 against reserves 1000 and 10 the function returns
  the number \<open>-2005\<close>, and the effect that calls it dispatches this number as the dependent
  value and leaves the error of the independent field unset.
\<close>

theorem exact_output_above_reserve_returns_number:
  "calculateEtherSethInputFromOutput 20 1000 10 = Inr (- 2005)
   \<and> step shallowPoolEnv exactOutputSession DependentEffect
     = Inr \<lparr>swapState = \<lparr>independentValue = ''20'', dependentValue = Some (- 2005),
                          independentField = OUTPUT,
                          inputCurrency = ''ETH'', outputCurrency = ''sETH'',
                          slippageInputValue = Some (- 2005),
                          slippageOutputValue = Some 20\<rparr>,
            independentValueParsed = Some 20, independentError = None, pending = []\<rparr>"
  by (simp add: shallowPoolEnv_def exactOutputSession_def dependentEffect_def
        calculateDependentValue_def formatBytes32String_def getSwapType_def truthy_def
        calculateEtherSethInputFromOutput_def bn_div_def bn_tdiv_def Let_def)

subsection \<open>Slippage bounds\<close>

lemma slippage_offset:
  assumes "0 \<le> v" and "0 \<le> bps"
  shows "bn_div (v * bps) 10000 = Inr ((v * bps) div 10000)"
  using assms by (intro bn_div_nonneg_pos) simp_all

lemma slippage_offset_range:
  fixes v bps :: int
  assumes "0 \<le> v" and "0 \<le> bps" and "bps \<le> 10000"
  shows "0 \<le> (v * bps) div 10000" and "(v * bps) div 10000 \<le> v"
proof -
  show "0 \<le> (v * bps) div 10000"
    using assms by (simp add: pos_imp_zdiv_nonneg_iff)
  have "v * bps \<le> v * 10000" using assms by (intro mult_left_mono) simp_all
  then have "(v * bps) div 10000 \<le> (v * 10000) div 10000" by (intro zdiv_mono1) simp_all
  then show "(v * bps) div 10000 \<le> v" by simp
qed

text \<open>
  Claim C5. For every present value \<open>v\<close>, an amount with \<open>0 \<le> v \<le> MaxUint256\<close>, and every
  deviation \<open>bps\<close> in \<open>[0, 10000]\<close> (the one the flag selects), the function returns bounds
  with \<open>minimum = max 0 (v - v * bps div 10000)\<close> and
  \<open>maximum = min MaxUint256 (v + v * bps div 10000)\<close>, so that
  \<open>minimum \<le> v \<le> maximum\<close>, \<open>0 \<le> minimum\<close> and \<open>maximum \<le> MaxUint256\<close>; for an absent
  value it returns the empty result.
\<close>

theorem slippage_bounds_of_amount:
  assumes "0 \<le> v" and "v \<le> MaxUint256"
    and "bps = (if token then tokenAllowedSlippage else allowedSlippage)"
    and "0 \<le> bps" and "bps \<le> 10000"
  shows "calculateSlippageBounds None token tokenAllowedSlippage allowedSlippage = Inr None
       \<and> (\<exists>b. calculateSlippageBounds (Some v) token tokenAllowedSlippage allowedSlippage
                  = Inr (Some b)
              \<and> minimum b = max 0 (v - (v * bps) div 10000)
              \<and> maximum b = min MaxUint256 (v + (v * bps) div 10000)
              \<and> minimum b \<le> v \<and> v \<le> maximum b
              \<and> 0 \<le> minimum b \<and> maximum b \<le> MaxUint256)"
proof -
  let ?off = "(v * bps) div 10000"
  let ?b = "\<lparr>minimum = (if v - ?off < 0 then 0 else v - ?off),
             maximum = (if v + ?off > MaxUint256 then MaxUint256 else v + ?off)\<rparr>"
  have off: "bn_div (v * bps) 10000 = Inr ?off"
    using assms(1,4) by (rule slippage_offset)
  have lo: "0 \<le> ?off" and hi: "?off \<le> v"
    using assms(1,4,5) by (rule slippage_offset_range)+
  have absent: "calculateSlippageBounds None token tokenAllowedSlippage allowedSlippage = Inr None"
    by (simp add: calculateSlippageBounds_def)
  have present: "calculateSlippageBounds (Some v) token tokenAllowedSlippage allowedSlippage
                   = Inr (Some ?b)"
    using off assms(3) by (simp add: calculateSlippageBounds_def Let_def)
  have "minimum ?b = max 0 (v - ?off)" by (simp add: max_def)
  moreover have "maximum ?b = min MaxUint256 (v + ?off)" by (simp add: min_def)
  moreover have "minimum ?b \<le> v" using lo hi assms(1) by simp
  moreover have "v \<le> maximum ?b" using lo assms(2) by simp
  moreover have "0 \<le> minimum ?b" by simp
  moreover have "maximum ?b \<le> MaxUint256" by simp
  ultimately show ?thesis using absent present by blast
qed

theorem slippage_bounds_of_amount_witness:
  "(0::int) \<le> 1992013 \<and> 1992013 \<le> MaxUint256
   \<and> (100::int) = (if False then 250 else 100) \<and> (0::int) \<le> 100 \<and> (100::int) \<le> 10000
   \<and> calculateSlippageBounds None False 250 100 = Inr None
   \<and> (\<exists>b. calculateSlippageBounds (Some 1992013) False 250 100 = Inr (Some b)
          \<and> minimum b = max 0 (1992013 - (1992013 * 100) div 10000)
          \<and> maximum b = min MaxUint256 (1992013 + (1992013 * 100) div 10000)
          \<and> minimum b \<le> 1992013 \<and> 1992013 \<le> maximum b
          \<and> 0 \<le> minimum b \<and> maximum b \<le> MaxUint256)"
proof -
  have h: "(1992013::int) \<le> MaxUint256" by (simp add: MaxUint256_def)
  show ?thesis
    using h slippage_bounds_of_amount [of 1992013 100 False 250 100]
    by simp
qed

subsection \<open>Swap type\<close>

text \<open>
  Claim C6. The classifier returns nothing when either symbol is unset. For set symbols
  \<open>x\<close> and \<open>y\<close> that are neither ETH nor sETH (equal or not): ETH to sETH and sETH to ETH
  get their own types, ETH to \<open>y\<close> is ETH_TO_OTHERSTOKEN, \<open>x\<close> to ETH is
  OTHERSTOKEN_TO_ETH, \<open>x\<close> to \<open>y\<close> is STOKEN_TO_STOKEN, and sETH to \<open>y\<close> is
  STOKEN_TO_STOKEN as well.
\<close>

theorem getSwapType_classifies:
  assumes "x \<noteq> []" and "x \<noteq> ''ETH''" and "x \<noteq> ''sETH''"
    and "y \<noteq> []" and "y \<noteq> ''ETH''" and "y \<noteq> ''sETH''"
  shows "(\<not> truthy a \<or> \<not> truthy b \<longrightarrow> getSwapType a b = None)
       \<and> getSwapType (Some ''ETH'') (Some ''sETH'') = Some ETH_TO_SETH
       \<and> getSwapType (Some ''sETH'') (Some ''ETH'') = Some SETH_TO_ETH
       \<and> getSwapType (Some ''ETH'') (Some y) = Some ETH_TO_OTHERSTOKEN
       \<and> getSwapType (Some x) (Some ''ETH'') = Some OTHERSTOKEN_TO_ETH
       \<and> getSwapType (Some x) (Some y) = Some STOKEN_TO_STOKEN
       \<and> getSwapType (Some ''sETH'') (Some y) = Some STOKEN_TO_STOKEN"
  using assms by (simp add: getSwapType_def truthy_def)

theorem getSwapType_classifies_witness:
  "''sUSD'' \<noteq> [] \<and> ''sUSD'' \<noteq> ''ETH'' \<and> ''sUSD'' \<noteq> ''sETH''
   \<and> ''sBTC'' \<noteq> [] \<and> ''sBTC'' \<noteq> ''ETH'' \<and> ''sBTC'' \<noteq> ''sETH''
   \<and> \<not> truthy None \<and> getSwapType None (Some ''sBTC'') = None
   \<and> getSwapType (Some ''ETH'') (Some ''sETH'') = Some ETH_TO_SETH
   \<and> getSwapType (Some ''sETH'') (Some ''ETH'') = Some SETH_TO_ETH
   \<and> getSwapType (Some ''ETH'') (Some ''sBTC'') = Some ETH_TO_OTHERSTOKEN
   \<and> getSwapType (Some ''sUSD'') (Some ''ETH'') = Some OTHERSTOKEN_TO_ETH
   \<and> getSwapType (Some ''sUSD'') (Some ''sBTC'') = Some STOKEN_TO_STOKEN
   \<and> getSwapType (Some ''sETH'') (Some ''sBTC'') = Some STOKEN_TO_STOKEN"
proof -
  have h: "\<not> truthy None" by (simp add: truthy_def)
  show ?thesis
    using h getSwapType_classifies [of "''sUSD''" "''sBTC''" None "Some ''sBTC''"] by simp
qed

subsection \<open>The reducer\<close>

lemma select_currency_returns:
  "\<exists>s'. swapStateReducer s (SELECT_CURRENCY fld c) = Inr s'"
  by (simp add: Let_def)

lemma select_currency_distinct:
  assumes "swapStateReducer s (SELECT_CURRENCY fld c) = Inr s'"
  shows "currenciesDistinct s'"
  using assms by (cases fld) (auto simp: Let_def currenciesDistinct_def split: if_splits)

lemma select_sequence_preserves:
  assumes "list_all isSelectCurrency acts" and "currenciesDistinct s"
  shows "\<exists>s'. dispatchAll s acts = Inr s' \<and> currenciesDistinct s'"
  using assms
proof (induction acts arbitrary: s)
  case Nil
  then show ?case by simp
next
  case (Cons a acts)
  from Cons.prems(1) obtain fld c where a: "a = SELECT_CURRENCY fld c"
    by (cases a) simp_all
  obtain s1 where s1: "swapStateReducer s (SELECT_CURRENCY fld c) = Inr s1"
    using select_currency_returns by blast
  then have "currenciesDistinct s1" by (rule select_currency_distinct)
  moreover have "list_all isSelectCurrency acts" using Cons.prems(1) by simp
  ultimately obtain s' where "dispatchAll s1 acts = Inr s'" and "currenciesDistinct s'"
    using Cons.IH by blast
  then show ?case using a s1 by simp
qed

text \<open>
  Claim C7, amended. From every state, reachable or not, every non-empty sequence of
  SELECT_CURRENCY actions is reduced without error to a state whose input and output
  currencies are unequal whenever both are set; the empty sequence gives such a state when
  the starting state is one. A SELECT_CURRENCY action that names the currency of the other
  field sets the named field and clears the other.
\<close>

theorem select_currency_keeps_currencies_distinct:
  assumes "list_all isSelectCurrency acts"
    and "acts \<noteq> [] \<or> currenciesDistinct s"
  shows "(\<exists>s'. dispatchAll s acts = Inr s' \<and> currenciesDistinct s')
       \<and> swapStateReducer s (SELECT_CURRENCY INPUT (outputCurrency s))
           = Inr (s\<lparr>inputCurrency := outputCurrency s, outputCurrency := []\<rparr>)
       \<and> swapStateReducer s (SELECT_CURRENCY OUTPUT (inputCurrency s))
           = Inr (s\<lparr>inputCurrency := [], outputCurrency := inputCurrency s\<rparr>)"
proof -
  have seq: "\<exists>s'. dispatchAll s acts = Inr s' \<and> currenciesDistinct s'"
  proof (cases acts)
    case Nil
    with assms(2) show ?thesis by simp
  next
    case (Cons a rest)
    with assms(1) obtain fld c where a: "a = SELECT_CURRENCY fld c"
      by (cases a) simp_all
    obtain s1 where s1: "swapStateReducer s (SELECT_CURRENCY fld c) = Inr s1"
      using select_currency_returns by blast
    then have "currenciesDistinct s1" by (rule select_currency_distinct)
    moreover have "list_all isSelectCurrency rest" using assms(1) Cons by simp
    ultimately obtain s' where "dispatchAll s1 rest = Inr s'" and "currenciesDistinct s'"
      using select_sequence_preserves by blast
    then show ?thesis using Cons a s1 by simp
  qed
  have "swapStateReducer s (SELECT_CURRENCY INPUT (outputCurrency s))
          = Inr (s\<lparr>inputCurrency := outputCurrency s, outputCurrency := []\<rparr>)"
    by (simp add: Let_def)
  moreover have "swapStateReducer s (SELECT_CURRENCY OUTPUT (inputCurrency s))
          = Inr (s\<lparr>inputCurrency := [], outputCurrency := inputCurrency s\<rparr>)"
    by (simp add: Let_def)
  ultimately show ?thesis using seq by blast
qed

theorem select_currency_keeps_currencies_distinct_witness:
  "list_all isSelectCurrency [SELECT_CURRENCY OUTPUT ''sUSD'', SELECT_CURRENCY INPUT ''sUSD'']
   \<and> [SELECT_CURRENCY OUTPUT ''sUSD'', SELECT_CURRENCY INPUT ''sUSD''] \<noteq> []
   \<and> (\<exists>s'. dispatchAll demoState
               [SELECT_CURRENCY OUTPUT ''sUSD'', SELECT_CURRENCY INPUT ''sUSD''] = Inr s'
          \<and> currenciesDistinct s')
   \<and> swapStateReducer demoState (SELECT_CURRENCY INPUT (outputCurrency demoState))
       = Inr (demoState\<lparr>inputCurrency := outputCurrency demoState, outputCurrency := []\<rparr>)
   \<and> swapStateReducer demoState (SELECT_CURRENCY OUTPUT (inputCurrency demoState))
       = Inr (demoState\<lparr>inputCurrency := [], outputCurrency := inputCurrency demoState\<rparr>)"
  using select_currency_keeps_currencies_distinct
          [of "[SELECT_CURRENCY OUTPUT ''sUSD'', SELECT_CURRENCY INPUT ''sUSD'']" demoState]
  by simp

text \<open>
  Claim C7 as stated covers every reachable state and every sequence, the empty one
  included. The initial state is reachable, and the initialiser compares nothing: with
  ETH pre-selected as the output and no input pre-selected, the input defaults to ETH and
  both currencies of the initial state are ETH.
\<close>

theorem initial_state_equal_currencies_counterexample:
  "getInitialSwapState (Some \<lparr>initialCurrency = None, inputCurrencyURL = None,
                              outputCurrencyURL = Some ''ETH'', exactFieldURL = None,
                              exactAmountURL = None\<rparr>)
     = Inr \<lparr>independentValue = [], dependentValue = None, independentField = INPUT,
            inputCurrency = ''ETH'', outputCurrency = ''ETH'',
            slippageInputValue = None, slippageOutputValue = None\<rparr>
   \<and> list_all isSelectCurrency []
   \<and> dispatchAll \<lparr>independentValue = [], dependentValue = None, independentField = INPUT,
                   inputCurrency = ''ETH'', outputCurrency = ''ETH'',
                   slippageInputValue = None, slippageOutputValue = None\<rparr> []
     = Inr \<lparr>independentValue = [], dependentValue = None, independentField = INPUT,
            inputCurrency = ''ETH'', outputCurrency = ''ETH'',
            slippageInputValue = None, slippageOutputValue = None\<rparr>
   \<and> \<not> currenciesDistinct \<lparr>independentValue = [], dependentValue = None,
                             independentField = INPUT,
                             inputCurrency = ''ETH'', outputCurrency = ''ETH'',
                             slippageInputValue = None, slippageOutputValue = None\<rparr>"
  by (simp add: getInitialSwapState_def truthy_def str_of_def currenciesDistinct_def)

text \<open>
  Claim C8. UPDATE_INDEPENDENT sets the raw text and the independent field; the dependent
  value is kept when the new text equals the previous independent value and cleared
  otherwise. Applying the same action a second time leaves the dependent value as the
  first application left it.
\<close>

theorem update_independent_short_circuit:
  "\<exists>s' s''. swapStateReducer s (UPDATE_INDEPENDENT fld v) = Inr s'
     \<and> independentValue s' = v
     \<and> independentField s' = fld
     \<and> dependentValue s' = (if v = independentValue s then dependentValue s else None)
     \<and> swapStateReducer s' (UPDATE_INDEPENDENT fld v) = Inr s''
     \<and> dependentValue s'' = dependentValue s'"
  by simp

theorem update_independent_short_circuit_witness:
  "(\<exists>s' s''. swapStateReducer demoState (UPDATE_INDEPENDENT INPUT ''5'') = Inr s'
     \<and> independentValue s' = ''5''
     \<and> independentField s' = INPUT
     \<and> dependentValue s' = Some 9
     \<and> swapStateReducer s' (UPDATE_INDEPENDENT INPUT ''5'') = Inr s''
     \<and> dependentValue s'' = dependentValue s')
   \<and> (\<exists>s' s''. swapStateReducer demoState (UPDATE_INDEPENDENT OUTPUT ''6'') = Inr s'
     \<and> independentValue s' = ''6''
     \<and> independentField s' = OUTPUT
     \<and> dependentValue s' = None
     \<and> swapStateReducer s' (UPDATE_INDEPENDENT OUTPUT ''6'') = Inr s''
     \<and> dependentValue s'' = dependentValue s')"
  using update_independent_short_circuit [of demoState INPUT "''5''"]
        update_independent_short_circuit [of demoState OUTPUT "''6''"]
  by (simp add: demoState_def)

text \<open>
  Claim C9. The claim is that an unrecognized action resets the state to the initial state
  without failing. The code does not: the default case calls the initialiser with no
  argument, and the initialiser throws a TypeError on its first property read, whatever
  the current state and the type of the action.
\<close>

theorem unrecognized_action_throws:
  "swapStateReducer s (OTHER t) = Inl TypeError"
  by (simp add: getInitialSwapState_def)

text \<open>
  Claim C10. SELECT_CURRENCY changes the two currencies only: the independent value, the
  dependent value, the independent field and the two slippage values are those of the
  state before.
\<close>

theorem select_currency_frame:
  "\<exists>s'. swapStateReducer s (SELECT_CURRENCY fld c) = Inr s'
     \<and> independentValue s' = independentValue s
     \<and> dependentValue s' = dependentValue s
     \<and> independentField s' = independentField s
     \<and> slippageInputValue s' = slippageInputValue s
     \<and> slippageOutputValue s' = slippageOutputValue s
     \<and> s' = s\<lparr>inputCurrency := inputCurrency s', outputCurrency := outputCurrency s'\<rparr>"
  by (simp add: Let_def)

subsection \<open>Results of outstanding requests\<close>

lemma calculated_dispatches_reduce:
  assumes "calculateDependentValue amount rETH rToken ty fld src dst = Inr r"
  shows "\<exists>st'. dispatchAll st (dispatched r) = Inr st'"
  using assms
  by (auto simp: calculateDependentValue_def formatBytes32String_def
           split: if_splits option.splits swap_type.splits sum.splits)

text \<open>A run of the effect never fails and only adds to the outstanding requests.\<close>

lemma dependentEffect_extends_pending:
  "\<exists>s' new. dependentEffect env s = Inr s' \<and> pending s' = pending s @ new"
proof (cases "independentValueParsed s")
  case None
  then show ?thesis by (simp add: dependentEffect_def)
next
  case (Some amount)
  show ?thesis
  proof (cases "reserveETH env")
    case None
    with Some show ?thesis by (simp add: dependentEffect_def)
  next
    case rE: (Some rETH)
    show ?thesis
    proof (cases "reserveToken env")
      case None
      with Some rE show ?thesis by (simp add: dependentEffect_def)
    next
      case rT: (Some rToken)
      let ?c = "calculateDependentValue amount rETH rToken
                  (getSwapType (inputSymbol env) (outputSymbol env))
                  (independentField (swapState s)) (inputSymbol env) (outputSymbol env)"
      show ?thesis
      proof (cases ?c)
        case (Inl e)
        with Some rE rT show ?thesis by (simp add: dependentEffect_def)
      next
        case (Inr r)
        then obtain st' where "dispatchAll (swapState s) (dispatched r) = Inr st'"
          using calculated_dispatches_reduce by blast
        with Some rE rT Inr show ?thesis by (simp add: dependentEffect_def)
      qed
    qed
  qed
qed

lemma resolve_sets_dependent:
  assumes "i < length (pending s)"
    and "req_then (request (pending s ! i)) = SetDependent"
    and "0 < r"
  shows "\<exists>s'. resolve i r s = Inr s' \<and> dependentValue (swapState s') = Some r"
  using assms by (simp add: resolve_def onResponse_def Let_def)

text \<open>
  A symbol that cannot be encoded (undefined, or longer than 31 bytes) ends the run in the
  \<^verbatim>\<open>catch\<close>: the error is set, nothing is dispatched and no quote is asked.
\<close>

lemma unencodable_symbol_signals:
  "step (tokenToTokenEnv\<lparr>outputSymbol := None\<rparr>) sessionAfterFirstEdit DependentEffect
     = Inr (sessionAfterFirstEdit\<lparr>independentError := Some ''insufficientLiquidity''\<rparr>)
   \<and> step (tokenToTokenEnv\<lparr>inputSymbol := Some (replicate 32 CHR ''s'')\<rparr>)
          sessionAfterFirstEdit DependentEffect
     = Inr (sessionAfterFirstEdit\<lparr>independentError := Some ''insufficientLiquidity''\<rparr>)"
  by (simp add: tokenToTokenEnv_def sessionAfterFirstEdit_def dependentEffect_def
        calculateDependentValue_def formatBytes32String_def)

text \<open>
  Claim C2. The claim is that the result of a request issued for a superseded independent
  amount leaves the dependent value as it is. The code does not: in the scenario of the two
  edits the active amount is 7, the cleanup of the effect has emptied the dependent value,
  and the request triggered by the amount 5 is still outstanding. Its result 42 becomes the
  dependent value, whether it arrives before the result 60 of the request triggered by 7 or
  after it; in the second case the stale 42 replaces the fresh 60 and nothing is left
  outstanding to repair it.
\<close>

theorem stale_result_replaces_fresh_quote:
  "run tokenToTokenEnv freshSession firstEdit = Inr sessionAfterFirstEdit
   \<and> run tokenToTokenEnv freshSession (firstEdit @ secondEdit)
     = Inr \<lparr>swapState = \<lparr>independentValue = ''7'', dependentValue = None,
                          independentField = INPUT,
                          inputCurrency = ''sUSD'', outputCurrency = ''sBTC'',
                          slippageInputValue = None, slippageOutputValue = None\<rparr>,
            independentValueParsed = Some 7, independentError = None,
            pending = [\<lparr>trigger = 5,
                        request = \<lparr>req_method = inputPrice, req_src = ''sUSD'',
                                   req_dst = ''sBTC'', req_amount = 5,
                                   req_then = SetDependent\<rparr>\<rparr>,
                       \<lparr>trigger = 7,
                        request = \<lparr>req_method = inputPrice, req_src = ''sUSD'',
                                   req_dst = ''sBTC'', req_amount = 7,
                                   req_then = SetDependent\<rparr>\<rparr>]\<rparr>
   \<and> run tokenToTokenEnv freshSession (firstEdit @ secondEdit @ [Resolve 0 42])
     = Inr \<lparr>swapState = \<lparr>independentValue = ''7'', dependentValue = Some 42,
                          independentField = INPUT,
                          inputCurrency = ''sUSD'', outputCurrency = ''sBTC'',
                          slippageInputValue = None, slippageOutputValue = None\<rparr>,
            independentValueParsed = Some 7, independentError = None,
            pending = [\<lparr>trigger = 7,
                        request = \<lparr>req_method = inputPrice, req_src = ''sUSD'',
                                   req_dst = ''sBTC'', req_amount = 7,
                                   req_then = SetDependent\<rparr>\<rparr>]\<rparr>
   \<and> run tokenToTokenEnv freshSession (firstEdit @ secondEdit @ [Resolve 1 60])
     = Inr \<lparr>swapState = \<lparr>independentValue = ''7'', dependentValue = Some 60,
                          independentField = INPUT,
                          inputCurrency = ''sUSD'', outputCurrency = ''sBTC'',
                          slippageInputValue = None, slippageOutputValue = None\<rparr>,
            independentValueParsed = Some 7, independentError = None,
            pending = [\<lparr>trigger = 5,
                        request = \<lparr>req_method = inputPrice, req_src = ''sUSD'',
                                   req_dst = ''sBTC'', req_amount = 5,
                                   req_then = SetDependent\<rparr>\<rparr>]\<rparr>
   \<and> run tokenToTokenEnv freshSession (firstEdit @ secondEdit @ [Resolve 1 60, Resolve 0 42])
     = Inr \<lparr>swapState = \<lparr>independentValue = ''7'', dependentValue = Some 42,
                          independentField = INPUT,
                          inputCurrency = ''sUSD'', outputCurrency = ''sBTC'',
                          slippageInputValue = None, slippageOutputValue = None\<rparr>,
            independentValueParsed = Some 7, independentError = None,
            pending = []\<rparr>"
  by (simp add: tokenToTokenEnv_def freshSession_def firstEdit_def secondEdit_def
        sessionAfterFirstEdit_def
        parseEffect_def dependentEffect_def resolve_def onResponse_def
        calculateDependentValue_def formatBytes32String_def getSwapType_def truthy_def
        MaxUint256_def Let_def)

end
